theory Spec2Isabelle
  imports Complex_Main "HOL-Library.Word"
begin

section \<open>FiniteDifferenceTypes.h: the enumerations\<close>

subsection \<open>SolverType\<close>

text \<open>
  \<^verbatim>\<open>enum class SolverType\<close> names no underlying type, so its underlying type is
  \<^verbatim>\<open>int\<close>: a SolverType is a 32-bit integer read in two's complement, and each
  enumerator is a named constant of that type. Two enumerators may share one number, and
  \<^verbatim>\<open>__BEGIN__\<close> does: it is declared with the number of \<^verbatim>\<open>ExplicitEuler\<close>.
  The enumerators \<^verbatim>\<open>Null\<close>, \<^verbatim>\<open>__BEGIN__\<close> and \<^verbatim>\<open>__END__\<close> are written
  \<open>SolverType_Null\<close>, \<open>SolverType_BEGIN\<close> and \<open>SolverType_END\<close> here; the twelfth
  solver keeps the spelling of the header, \<open>AdamsMouldon2\<close>.
\<close>

type_synonym SolverType = "32 word"

definition SolverType_Null :: SolverType where
  "SolverType_Null = 0"

definition ExplicitEuler :: SolverType where
  "ExplicitEuler = 1"

definition ImplicitEuler :: SolverType where
  "ImplicitEuler = 2"

definition CrankNicolson :: SolverType where
  "CrankNicolson = 3"

definition RungeKuttaRalston :: SolverType where
  "RungeKuttaRalston = 4"

definition RungeKutta3 :: SolverType where
  "RungeKutta3 = 5"

definition RungeKutta4 :: SolverType where
  "RungeKutta4 = 6"

definition RungeKuttaThreeEight :: SolverType where
  "RungeKuttaThreeEight = 7"

definition RungeKuttaGaussLegendre4 :: SolverType where
  "RungeKuttaGaussLegendre4 = 8"

definition RichardsonExtrapolation2 :: SolverType where
  "RichardsonExtrapolation2 = 9"

definition RichardsonExtrapolation3 :: SolverType where
  "RichardsonExtrapolation3 = 10"

definition AdamsBashforth2 :: SolverType where
  "AdamsBashforth2 = 11"

definition AdamsMouldon2 :: SolverType where
  "AdamsMouldon2 = 12"

definition SolverType_BEGIN :: SolverType where
  "SolverType_BEGIN = 1"

definition SolverType_END :: SolverType where
  "SolverType_END = 13"

text \<open>The declaration itself, in the order of the header: each enumerator with its number.\<close>

definition SolverType_enumerators :: "(string \<times> SolverType) list" where
  "SolverType_enumerators =
    [(''Null'', SolverType_Null),
     (''ExplicitEuler'', ExplicitEuler),
     (''ImplicitEuler'', ImplicitEuler),
     (''CrankNicolson'', CrankNicolson),
     (''RungeKuttaRalston'', RungeKuttaRalston),
     (''RungeKutta3'', RungeKutta3),
     (''RungeKutta4'', RungeKutta4),
     (''RungeKuttaThreeEight'', RungeKuttaThreeEight),
     (''RungeKuttaGaussLegendre4'', RungeKuttaGaussLegendre4),
     (''RichardsonExtrapolation2'', RichardsonExtrapolation2),
     (''RichardsonExtrapolation3'', RichardsonExtrapolation3),
     (''AdamsBashforth2'', AdamsBashforth2),
     (''AdamsMouldon2'', AdamsMouldon2),
     (''__BEGIN__'', SolverType_BEGIN),
     (''__END__'', SolverType_END)]"

text \<open>
  The solvers proper are the enumerators the header lists under its four headings
  (Single-Step, Runge-Kutta, Richardson Extrapolation, Multi-Step), that is, all but
  \<^verbatim>\<open>Null\<close> and the two range marks.
\<close>

definition solver_names :: "string list" where
  "solver_names =
    map fst (filter (\<lambda>(n, v). n \<notin> {''Null'', ''__BEGIN__'', ''__END__''}) SolverType_enumerators)"

definition solvers :: "SolverType list" where
  "solvers =
    map snd (filter (\<lambda>(n, v). n \<notin> {''Null'', ''__BEGIN__'', ''__END__''}) SolverType_enumerators)"

text \<open>The range the two marks delimit, compared as the signed integers they are.\<close>

definition in_solver_range :: "SolverType \<Rightarrow> bool" where
  "in_solver_range s \<longleftrightarrow> SolverType_BEGIN \<le>s s \<and> s <s SolverType_END"

text \<open>
  \<^verbatim>\<open>static constexpr unsigned getNumberOfSteps(const SolverType solverType)\<close>: a switch
  with two case labels sharing \<^verbatim>\<open>return 2\<close> and a default label with \<^verbatim>\<open>return 1\<close>.
\<close>

definition getNumberOfSteps :: "SolverType \<Rightarrow> 32 word" where
  "getNumberOfSteps solverType =
    (if solverType = AdamsBashforth2 then 2
     else if solverType = AdamsMouldon2 then 2
     else 1)"

subsection \<open>SpaceDiscretizerType and BoundaryConditionType\<close>

text \<open>
  The two smaller enumerations are only stored and compared by name in this header, so they
  are datatypes. Their \<^verbatim>\<open>Null\<close> enumerators carry the name of their enumeration, as
  the scoped names \<^verbatim>\<open>SpaceDiscretizerType::Null\<close> and
  \<^verbatim>\<open>BoundaryConditionType::Null\<close> do.
\<close>

datatype SpaceDiscretizerType = SpaceDiscretizerType_Null | Centered | Upwind | LaxWendroff

datatype BoundaryConditionType = BoundaryConditionType_Null | Dirichlet | Neumann | Periodic

section \<open>FiniteDifferenceTypes.h: the structures\<close>

text \<open>
  The header only stores and copies its \<^verbatim>\<open>double\<close> members and never computes with
  them; the one literal it writes is \<^verbatim>\<open>0.0\<close>. A \<^verbatim>\<open>double\<close> is a real number here.
\<close>

type_synonym double = real

text \<open>
  Modelled from the spec: \<^verbatim>\<open>MemoryBuffer\<close> is declared in \<^verbatim>\<open>Types.h\<close>, which is
  not among the sources at hand. Section 6 of the specification describes it as a
  fixed-length, randomly-indexable sequence of real numbers.
\<close>

type_synonym MemoryBuffer = "real list"

text \<open>
  A parameter with a default argument is an optional argument: \<open>None\<close> stands for the
  argument left out at the call. (C++ lets a call leave out trailing arguments only; the
  functions below accept every combination and so cover each call that compiles.)
\<close>

definition default_arg :: "'a \<Rightarrow> 'a option \<Rightarrow> 'a" where
  "default_arg d a = (case a of None \<Rightarrow> d | Some x \<Rightarrow> x)"

subsection \<open>BoundaryCondition\<close>

text \<open>
  The members \<^verbatim>\<open>type\<close> and \<^verbatim>\<open>value\<close> are the fields \<open>type_bc\<close> and
  \<open>value_bc\<close>. The constructor
  \<^verbatim>\<open>BoundaryCondition(type = BoundaryConditionType::Neumann, value = 0.0)\<close> initialises
  each member from the parameter of the same name.
\<close>

record BoundaryCondition =
  type_bc :: BoundaryConditionType
  value_bc :: double

definition BoundaryCondition_ctor ::
  "BoundaryConditionType option \<Rightarrow> double option \<Rightarrow> BoundaryCondition" where
  "BoundaryCondition_ctor t v = \<lparr>type_bc = default_arg Neumann t, value_bc = default_arg 0 v\<rparr>"

subsection \<open>BoundaryCondition1D and BoundaryCondition2D\<close>

record BoundaryCondition1D =
  left :: BoundaryCondition
  right :: BoundaryCondition

definition BoundaryCondition1D_ctor ::
  "BoundaryCondition option \<Rightarrow> BoundaryCondition option \<Rightarrow> BoundaryCondition1D" where
  "BoundaryCondition1D_ctor l r =
    \<lparr>left = default_arg (BoundaryCondition_ctor None None) l,
     right = default_arg (BoundaryCondition_ctor None None) r\<rparr>"

text \<open>
  The defaulted copy constructor \<^verbatim>\<open>BoundaryCondition1D(const BoundaryCondition1D& rhs)\<close>
  copies member by member. Its parameter is a reference to the class, which also binds to
  an object of a class derived from it: the argument is any extension of the record.
\<close>

definition BoundaryCondition1D_copy :: "'a BoundaryCondition1D_scheme \<Rightarrow> BoundaryCondition1D" where
  "BoundaryCondition1D_copy rhs = \<lparr>left = left rhs, right = right rhs\<rparr>"

text \<open>
  \<^verbatim>\<open>class BoundaryCondition2D : public BoundaryCondition1D\<close> is the record of its base
  extended by the members it declares. Its constructor initialises the base subobject by
  \<^verbatim>\<open>BoundaryCondition1D(left, right)\<close> and then \<^verbatim>\<open>down\<close> and \<^verbatim>\<open>up\<close>.
\<close>

record BoundaryCondition2D = BoundaryCondition1D +
  down :: BoundaryCondition
  up :: BoundaryCondition

definition BoundaryCondition2D_ctor ::
  "BoundaryCondition option \<Rightarrow> BoundaryCondition option \<Rightarrow>
   BoundaryCondition option \<Rightarrow> BoundaryCondition option \<Rightarrow> BoundaryCondition2D" where
  "BoundaryCondition2D_ctor l r d u =
    BoundaryCondition1D.extend
      (BoundaryCondition1D_ctor
        (Some (default_arg (BoundaryCondition_ctor None None) l))
        (Some (default_arg (BoundaryCondition_ctor None None) r)))
      (BoundaryCondition2D.fields
        (default_arg (BoundaryCondition_ctor None None) d)
        (default_arg (BoundaryCondition_ctor None None) u))"

subsection \<open>FiniteDifferenceInput1D\<close>

text \<open>
  A struct of seven public members that are not \<^verbatim>\<open>const\<close>. The constructor has no
  default arguments, an empty body and no \<^verbatim>\<open>throw\<close>: it initialises each member from
  the parameter of the same name. The defaulted assignment operators (copy and move alike)
  overwrite the members of the target one by one with those of the right-hand side.
\<close>

record FiniteDifferenceInput1D =
  dt :: double
  grid :: MemoryBuffer
  velocity :: MemoryBuffer
  diffusion :: MemoryBuffer
  solverType :: SolverType
  spaceDiscretizerType :: SpaceDiscretizerType
  boundaryConditions :: BoundaryCondition1D

definition FiniteDifferenceInput1D_ctor ::
  "double \<Rightarrow> MemoryBuffer \<Rightarrow> MemoryBuffer \<Rightarrow> MemoryBuffer \<Rightarrow> SolverType \<Rightarrow>
   SpaceDiscretizerType \<Rightarrow> BoundaryCondition1D \<Rightarrow> FiniteDifferenceInput1D" where
  "FiniteDifferenceInput1D_ctor dt' grid' velocity' diffusion' solverType' spaceDiscretizerType'
      boundaryConditions' =
    \<lparr>dt = dt', grid = grid', velocity = velocity', diffusion = diffusion',
     solverType = solverType', spaceDiscretizerType = spaceDiscretizerType',
     boundaryConditions = boundaryConditions'\<rparr>"

definition FiniteDifferenceInput1D_assign ::
  "FiniteDifferenceInput1D \<Rightarrow> FiniteDifferenceInput1D \<Rightarrow> FiniteDifferenceInput1D" where
  "FiniteDifferenceInput1D_assign lhs rhs =
    lhs\<lparr>dt := dt rhs, grid := grid rhs, velocity := velocity rhs, diffusion := diffusion rhs,
        solverType := solverType rhs, spaceDiscretizerType := spaceDiscretizerType rhs,
        boundaryConditions := boundaryConditions rhs\<rparr>"

subsection \<open>FiniteDifferenceInput2D\<close>

text \<open>
  The two-dimensional struct is declared on its own (it does not derive from the
  one-dimensional one) and repeats five member names; from here on the one-dimensional
  members are written with their struct, as \<open>FiniteDifferenceInput1D.dt\<close>.
\<close>

record FiniteDifferenceInput2D =
  dt :: double
  xGrid :: MemoryBuffer
  yGrid :: MemoryBuffer
  xVelocity :: MemoryBuffer
  yVelocity :: MemoryBuffer
  diffusion :: MemoryBuffer
  solverType :: SolverType
  spaceDiscretizerType :: SpaceDiscretizerType
  boundaryConditions :: BoundaryCondition2D

definition FiniteDifferenceInput2D_ctor ::
  "double \<Rightarrow> MemoryBuffer \<Rightarrow> MemoryBuffer \<Rightarrow> MemoryBuffer \<Rightarrow> MemoryBuffer \<Rightarrow> MemoryBuffer \<Rightarrow>
   SolverType \<Rightarrow> SpaceDiscretizerType \<Rightarrow> BoundaryCondition2D \<Rightarrow> FiniteDifferenceInput2D" where
  "FiniteDifferenceInput2D_ctor dt' xGrid' yGrid' xVelocity' yVelocity' diffusion' solverType'
      spaceDiscretizerType' boundaryConditions' =
    \<lparr>dt = dt', xGrid = xGrid', yGrid = yGrid', xVelocity = xVelocity', yVelocity = yVelocity',
     diffusion = diffusion', solverType = solverType',
     spaceDiscretizerType = spaceDiscretizerType', boundaryConditions = boundaryConditions'\<rparr>"

definition FiniteDifferenceInput2D_assign ::
  "FiniteDifferenceInput2D \<Rightarrow> FiniteDifferenceInput2D \<Rightarrow> FiniteDifferenceInput2D" where
  "FiniteDifferenceInput2D_assign lhs rhs =
    lhs\<lparr>dt := dt rhs, xGrid := xGrid rhs, yGrid := yGrid rhs, xVelocity := xVelocity rhs,
        yVelocity := yVelocity rhs, diffusion := diffusion rhs, solverType := solverType rhs,
        spaceDiscretizerType := spaceDiscretizerType rhs,
        boundaryConditions := boundaryConditions rhs\<rparr>"

section \<open>What the specification asks for\<close>

text \<open>
  The definitions of this section are written from the words of the specification, not from
  the header, and carry the prefix \<open>spec_\<close> (the dispatcher apart, which the
  specification names \<^verbatim>\<open>Advance\<close>). The header declares no error and throws none; the two
  errors are those of section 7 of the specification.
\<close>

datatype error = InvalidConfiguration | UnsupportedSolver

subsection \<open>Validated construction (sections 3 and 4.4)\<close>

text \<open>Periodic on one side of an axis asks for Periodic on the other side.\<close>

definition spec_periodic_paired :: "BoundaryCondition \<Rightarrow> BoundaryCondition \<Rightarrow> bool" where
  "spec_periodic_paired a b \<longleftrightarrow> (type_bc a = Periodic) = (type_bc b = Periodic)"

definition spec_BoundaryCondition1D ::
  "BoundaryCondition \<Rightarrow> BoundaryCondition \<Rightarrow> error + BoundaryCondition1D" where
  "spec_BoundaryCondition1D l r =
    (if spec_periodic_paired l r then Inr \<lparr>left = l, right = r\<rparr>
     else Inl InvalidConfiguration)"

definition spec_BoundaryCondition2D ::
  "BoundaryCondition \<Rightarrow> BoundaryCondition \<Rightarrow> BoundaryCondition \<Rightarrow> BoundaryCondition \<Rightarrow>
   error + BoundaryCondition2D" where
  "spec_BoundaryCondition2D l r d u =
    (if spec_periodic_paired l r \<and> spec_periodic_paired d u
     then Inr \<lparr>left = l, right = r, down = d, up = u\<rparr>
     else Inl InvalidConfiguration)"

text \<open>
  The invariants of section 3 and the reasons section 4.4 enumerates: equal lengths of at
  least three, a positive \<^verbatim>\<open>dt\<close>, a strictly increasing grid, periodic sides in
  pairs, and neither type \<^verbatim>\<open>Null\<close>.
\<close>

definition spec_valid1D :: "FiniteDifferenceInput1D \<Rightarrow> bool" where
  "spec_valid1D c \<longleftrightarrow>
    length (velocity c) = length (grid c) \<and>
    length (FiniteDifferenceInput1D.diffusion c) = length (grid c) \<and>
    3 \<le> length (grid c) \<and>
    0 < FiniteDifferenceInput1D.dt c \<and>
    sorted_wrt (<) (grid c) \<and>
    spec_periodic_paired (left (FiniteDifferenceInput1D.boundaryConditions c))
      (right (FiniteDifferenceInput1D.boundaryConditions c)) \<and>
    FiniteDifferenceInput1D.solverType c \<noteq> SolverType_Null \<and>
    FiniteDifferenceInput1D.spaceDiscretizerType c \<noteq> SpaceDiscretizerType_Null"

definition spec_FiniteDifferenceInput1D ::
  "double \<Rightarrow> MemoryBuffer \<Rightarrow> MemoryBuffer \<Rightarrow> MemoryBuffer \<Rightarrow> SolverType \<Rightarrow>
   SpaceDiscretizerType \<Rightarrow> BoundaryCondition1D \<Rightarrow> error + FiniteDifferenceInput1D" where
  "spec_FiniteDifferenceInput1D t g v d s z b =
    (let c = \<lparr>FiniteDifferenceInput1D.dt = t, grid = g, velocity = v, diffusion = d,
                solverType = s, spaceDiscretizerType = z, boundaryConditions = b\<rparr>
     in if spec_valid1D c then Inr c else Inl InvalidConfiguration)"

text \<open>
  In two dimensions the rules are analogous: each axis has a strictly increasing grid of at
  least three points (section 8 lists a grid length of 0 to 2 as invalid), the diffusion
  field covers the whole grid, and each velocity field is aligned with its own axis or with
  the whole grid.
\<close>

definition spec_valid2D :: "FiniteDifferenceInput2D \<Rightarrow> bool" where
  "spec_valid2D c \<longleftrightarrow>
    3 \<le> length (xGrid c) \<and>
    3 \<le> length (yGrid c) \<and>
    length (diffusion c) = length (xGrid c) * length (yGrid c) \<and>
    (length (xVelocity c) = length (xGrid c) \<or>
     length (xVelocity c) = length (xGrid c) * length (yGrid c)) \<and>
    (length (yVelocity c) = length (yGrid c) \<or>
     length (yVelocity c) = length (xGrid c) * length (yGrid c)) \<and>
    0 < dt c \<and>
    sorted_wrt (<) (xGrid c) \<and>
    sorted_wrt (<) (yGrid c) \<and>
    spec_periodic_paired (left (boundaryConditions c)) (right (boundaryConditions c)) \<and>
    spec_periodic_paired (down (boundaryConditions c)) (up (boundaryConditions c)) \<and>
    solverType c \<noteq> SolverType_Null \<and>
    spaceDiscretizerType c \<noteq> SpaceDiscretizerType_Null"

definition spec_FiniteDifferenceInput2D ::
  "double \<Rightarrow> MemoryBuffer \<Rightarrow> MemoryBuffer \<Rightarrow> MemoryBuffer \<Rightarrow> MemoryBuffer \<Rightarrow> MemoryBuffer \<Rightarrow>
   SolverType \<Rightarrow> SpaceDiscretizerType \<Rightarrow> BoundaryCondition2D \<Rightarrow> error + FiniteDifferenceInput2D" where
  "spec_FiniteDifferenceInput2D t gx gy vx vy d s z b =
    (let c = \<lparr>dt = t, xGrid = gx, yGrid = gy, xVelocity = vx, yVelocity = vy, diffusion = d,
                solverType = s, spaceDiscretizerType = z, boundaryConditions = b\<rparr>
     in if spec_valid2D c then Inr c else Inl InvalidConfiguration)"

subsection \<open>The dispatcher (section 4.3)\<close>

text \<open>
  Modelled from the spec: the dispatcher \<^verbatim>\<open>Advance\<close> is code of the repository outside
  this header. Section 4.3 gives one stepping rule for each of the twelve solver families,
  and section 7 makes a \<^verbatim>\<open>Null\<close> or out-of-range enumeration number reaching dispatch
  fail with \<^verbatim>\<open>UnsupportedSolver\<close>. Only the choice of the rule is modelled, as a switch
  over the twelve enumerators with the failure as its default; the numerics of a step are
  not.
\<close>

datatype SteppingRule =
  Rule_ExplicitEuler | Rule_ImplicitEuler | Rule_CrankNicolson
  | Rule_RungeKuttaRalston | Rule_RungeKutta3 | Rule_RungeKutta4 | Rule_RungeKuttaThreeEight
  | Rule_RungeKuttaGaussLegendre4
  | Rule_RichardsonExtrapolation2 | Rule_RichardsonExtrapolation3
  | Rule_AdamsBashforth2 | Rule_AdamsMoulton2

definition Advance_dispatch :: "SolverType \<Rightarrow> error + SteppingRule" where
  "Advance_dispatch s =
    (if s = ExplicitEuler then Inr Rule_ExplicitEuler
     else if s = ImplicitEuler then Inr Rule_ImplicitEuler
     else if s = CrankNicolson then Inr Rule_CrankNicolson
     else if s = RungeKuttaRalston then Inr Rule_RungeKuttaRalston
     else if s = RungeKutta3 then Inr Rule_RungeKutta3
     else if s = RungeKutta4 then Inr Rule_RungeKutta4
     else if s = RungeKuttaThreeEight then Inr Rule_RungeKuttaThreeEight
     else if s = RungeKuttaGaussLegendre4 then Inr Rule_RungeKuttaGaussLegendre4
     else if s = RichardsonExtrapolation2 then Inr Rule_RichardsonExtrapolation2
     else if s = RichardsonExtrapolation3 then Inr Rule_RichardsonExtrapolation3
     else if s = AdamsBashforth2 then Inr Rule_AdamsBashforth2
     else if s = AdamsMouldon2 then Inr Rule_AdamsMoulton2
     else Inl UnsupportedSolver)"

section \<open>Facts about the enumeration\<close>

lemmas SolverType_defs =
  SolverType_Null_def ExplicitEuler_def ImplicitEuler_def CrankNicolson_def
  RungeKuttaRalston_def RungeKutta3_def RungeKutta4_def RungeKuttaThreeEight_def
  RungeKuttaGaussLegendre4_def RichardsonExtrapolation2_def RichardsonExtrapolation3_def
  AdamsBashforth2_def AdamsMouldon2_def SolverType_BEGIN_def SolverType_END_def

lemma solvers_eq:
  "solvers =
    [ExplicitEuler, ImplicitEuler, CrankNicolson, RungeKuttaRalston, RungeKutta3, RungeKutta4,
     RungeKuttaThreeEight, RungeKuttaGaussLegendre4, RichardsonExtrapolation2,
     RichardsonExtrapolation3, AdamsBashforth2, AdamsMouldon2]"
  by (simp add: solvers_def SolverType_enumerators_def)

lemma solver_names_eq:
  "solver_names =
    [''ExplicitEuler'', ''ImplicitEuler'', ''CrankNicolson'', ''RungeKuttaRalston'',
     ''RungeKutta3'', ''RungeKutta4'', ''RungeKuttaThreeEight'', ''RungeKuttaGaussLegendre4'',
     ''RichardsonExtrapolation2'', ''RichardsonExtrapolation3'', ''AdamsBashforth2'',
     ''AdamsMouldon2'']"
  by (simp add: solver_names_def SolverType_enumerators_def)

text \<open>
  A 32-bit number lies between the two range marks exactly if it is the number of one of
  the twelve solvers: from the bounds on its signed reading to the twelve cases, and back.
\<close>

lemma in_solver_range_iff: "in_solver_range s \<longleftrightarrow> s \<in> set solvers"
proof
  assume "in_solver_range s"
  then have "1 \<le> sint s" and "sint s < 13"
    by (simp_all add: in_solver_range_def SolverType_defs word_sle_eq word_sless_alt)
  then have "sint s \<in> {1, 2, 3, 4, 5, 6, 7, 8, 9, 10, 11, 12}"
    by simp arith
  then have "word_of_int (sint s) \<in>
      (word_of_int ` {1, 2, 3, 4, 5, 6, 7, 8, 9, 10, 11, 12} :: 32 word set)"
    by (rule imageI)
  then show "s \<in> set solvers"
    by (simp add: solvers_eq SolverType_defs)
next
  assume "s \<in> set solvers"
  then show "in_solver_range s"
    by (auto simp add: solvers_eq in_solver_range_def SolverType_defs word_sle_eq word_sless_alt)
qed

section \<open>The step order\<close>

text \<open>
  Claim C1. For every valid SolverType, \<^verbatim>\<open>getNumberOfSteps\<close> returns the step order: 2
  when the solver is AdamsBashforth2 or the Adams-Moulton solver (which the header spells
  \<^verbatim>\<open>AdamsMouldon2\<close>), and 1 for each of the ten other solvers.
\<close>

theorem getNumberOfSteps_solvers:
  "s \<in> set solvers \<Longrightarrow>
    getNumberOfSteps s = (if s = AdamsBashforth2 \<or> s = AdamsMouldon2 then 2 else 1)"
  by (simp add: getNumberOfSteps_def)

theorem getNumberOfSteps_solvers_witness:
  "AdamsBashforth2 \<in> set solvers \<and> getNumberOfSteps AdamsBashforth2 = 2 \<and>
   AdamsMouldon2 \<in> set solvers \<and> getNumberOfSteps AdamsMouldon2 = 2 \<and>
   RungeKutta4 \<in> set solvers \<and> getNumberOfSteps RungeKutta4 = 1"
proof -
  have a: "AdamsBashforth2 \<in> set solvers" and b: "AdamsMouldon2 \<in> set solvers"
    and c: "RungeKutta4 \<in> set solvers"
    by (simp_all add: solvers_eq)
  have "getNumberOfSteps AdamsBashforth2 = 2"
    using getNumberOfSteps_solvers [OF a] by simp
  moreover have "getNumberOfSteps AdamsMouldon2 = 2"
    using getNumberOfSteps_solvers [OF b] by simp
  moreover have "getNumberOfSteps RungeKutta4 = 1"
    using getNumberOfSteps_solvers [OF c] by (simp add: SolverType_defs)
  ultimately show ?thesis using a b c by blast
qed

text \<open>
  Claim C9. \<^verbatim>\<open>getNumberOfSteps\<close> answers for every 32-bit number a SolverType can hold,
  with 1 or 2, and with 1 (the default label of the switch) whenever the number is neither
  that of AdamsBashforth2 nor that of the Adams-Moulton solver. The witness asks at
  \<^verbatim>\<open>Null\<close>, at the two range marks and at \<open>- 1\<close>, which no enumerator names.
\<close>

theorem getNumberOfSteps_default:
  "(getNumberOfSteps s = 1 \<or> getNumberOfSteps s = 2) \<and>
   (s \<noteq> AdamsBashforth2 \<and> s \<noteq> AdamsMouldon2 \<longrightarrow> getNumberOfSteps s = 1)"
  by (simp add: getNumberOfSteps_def)

theorem getNumberOfSteps_default_witness:
  "SolverType_Null \<noteq> AdamsBashforth2 \<and> SolverType_Null \<noteq> AdamsMouldon2 \<and>
   getNumberOfSteps SolverType_Null = 1 \<and>
   SolverType_BEGIN \<noteq> AdamsBashforth2 \<and> SolverType_BEGIN \<noteq> AdamsMouldon2 \<and>
   getNumberOfSteps SolverType_BEGIN = 1 \<and>
   SolverType_END \<noteq> AdamsBashforth2 \<and> SolverType_END \<noteq> AdamsMouldon2 \<and>
   getNumberOfSteps SolverType_END = 1 \<and>
   (- 1 :: SolverType) \<noteq> AdamsBashforth2 \<and> (- 1 :: SolverType) \<noteq> AdamsMouldon2 \<and>
   getNumberOfSteps (- 1) = 1"
proof -
  have n: "SolverType_Null \<noteq> AdamsBashforth2 \<and> SolverType_Null \<noteq> AdamsMouldon2"
    and b: "SolverType_BEGIN \<noteq> AdamsBashforth2 \<and> SolverType_BEGIN \<noteq> AdamsMouldon2"
    and e: "SolverType_END \<noteq> AdamsBashforth2 \<and> SolverType_END \<noteq> AdamsMouldon2"
    and m: "(- 1 :: SolverType) \<noteq> AdamsBashforth2 \<and> (- 1 :: SolverType) \<noteq> AdamsMouldon2"
    by (simp_all add: SolverType_defs)
  from n b e m
    getNumberOfSteps_default [of SolverType_Null] getNumberOfSteps_default [of SolverType_BEGIN]
    getNumberOfSteps_default [of SolverType_END] getNumberOfSteps_default [of "- 1"]
  show ?thesis by blast
qed

section \<open>The numbers and names of the solvers\<close>

text \<open>
  Claim C10. The twelve solvers carry the consecutive numbers 1 to 12 in the order of their
  declaration; \<^verbatim>\<open>__BEGIN__\<close> is 1, the very number of ExplicitEuler, and \<^verbatim>\<open>__END__\<close>
  is 13; so a SolverType lies in the half-open range from \<^verbatim>\<open>__BEGIN__\<close> to
  \<^verbatim>\<open>__END__\<close> exactly if it is one of the twelve solvers.
\<close>

theorem SolverType_numbers:
  "map sint solvers = [1, 2, 3, 4, 5, 6, 7, 8, 9, 10, 11, 12] \<and>
   SolverType_BEGIN = ExplicitEuler \<and> sint SolverType_BEGIN = 1 \<and> sint SolverType_END = 13 \<and>
   in_solver_range s = (s \<in> set solvers)"
  by (simp add: in_solver_range_iff) (simp add: solvers_eq SolverType_defs)

text \<open>
  Claim C8. SolverType has exactly twelve solvers, and the claim names each of them. Eleven
  names are declared as the claim writes them. The twelfth is declared as
  \<^verbatim>\<open>AdamsMouldon2\<close>: looking up the name \<^verbatim>\<open>AdamsMoulton2\<close> of the claim (the method is
  due to Adams and Moulton) finds no enumerator.
\<close>

theorem SolverType_twelfth_name:
  "solver_names =
    [''ExplicitEuler'', ''ImplicitEuler'', ''CrankNicolson'', ''RungeKuttaRalston'',
     ''RungeKutta3'', ''RungeKutta4'', ''RungeKuttaThreeEight'', ''RungeKuttaGaussLegendre4'',
     ''RichardsonExtrapolation2'', ''RichardsonExtrapolation3'', ''AdamsBashforth2'',
     ''AdamsMouldon2''] \<and>
   map_of SolverType_enumerators ''AdamsMoulton2'' = None \<and>
   map_of SolverType_enumerators ''AdamsMouldon2'' = Some AdamsMouldon2"
  by (simp add: solver_names_eq) (simp add: SolverType_enumerators_def)

section \<open>Boundary conditions\<close>

lemmas ctor_defs =
  default_arg_def BoundaryCondition_ctor_def BoundaryCondition1D_ctor_def
  BoundaryCondition2D_ctor_def BoundaryCondition1D.extend_def BoundaryCondition2D.fields_def

text \<open>
  Claim C5. A BoundaryCondition built with no arguments has type Neumann and value 0.
\<close>

theorem BoundaryCondition_default:
  "type_bc (BoundaryCondition_ctor None None) = Neumann \<and>
   value_bc (BoundaryCondition_ctor None None) = 0"
  by (simp add: BoundaryCondition_ctor_def default_arg_def)

text \<open>
  Claim C3 has every boundary condition with exactly one Periodic side of an axis rejected
  when it is constructed. The constructors of the header check nothing.
  \<^verbatim>\<open>BoundaryCondition1D(BoundaryCondition(BoundaryConditionType::Periodic))\<close> pairs a
  Periodic left side with the default Neumann right side and yields that object, where the
  validated construction of the specification fails; so does a BoundaryCondition2D with
  \<^verbatim>\<open>down\<close> Dirichlet and \<^verbatim>\<open>up\<close> Periodic.
\<close>

theorem mixed_periodic_is_constructed:
  "spec_BoundaryCondition1D (BoundaryCondition_ctor (Some Periodic) None)
      (BoundaryCondition_ctor None None) = Inl InvalidConfiguration \<and>
   BoundaryCondition1D_ctor (Some (BoundaryCondition_ctor (Some Periodic) None)) None =
     \<lparr>left = \<lparr>type_bc = Periodic, value_bc = 0\<rparr>, right = \<lparr>type_bc = Neumann, value_bc = 0\<rparr>\<rparr> \<and>
   spec_BoundaryCondition2D (BoundaryCondition_ctor None None) (BoundaryCondition_ctor None None)
      (BoundaryCondition_ctor (Some Dirichlet) (Some 1))
      (BoundaryCondition_ctor (Some Periodic) None) = Inl InvalidConfiguration \<and>
   BoundaryCondition2D_ctor None None (Some (BoundaryCondition_ctor (Some Dirichlet) (Some 1)))
      (Some (BoundaryCondition_ctor (Some Periodic) None)) =
     \<lparr>left = \<lparr>type_bc = Neumann, value_bc = 0\<rparr>, right = \<lparr>type_bc = Neumann, value_bc = 0\<rparr>,
      down = \<lparr>type_bc = Dirichlet, value_bc = 1\<rparr>, up = \<lparr>type_bc = Periodic, value_bc = 0\<rparr>\<rparr>"
  by (simp add: ctor_defs spec_BoundaryCondition1D_def spec_BoundaryCondition2D_def
      spec_periodic_paired_def)

text \<open>
  Claim C3, amended. No boundary condition is rejected at construction: the constructors of
  BoundaryCondition1D and BoundaryCondition2D store the sides they are given unchanged,
  whatever their types, also when exactly one side of an axis is Periodic. Where the sides
  are consistently paired, the object is the one the validated construction of the
  specification accepts.
\<close>

theorem BoundaryCondition_ctor_accepts_every_pairing:
  "BoundaryCondition1D_ctor (Some l) (Some r) = \<lparr>left = l, right = r\<rparr> \<and>
   BoundaryCondition2D_ctor (Some l) (Some r) (Some d) (Some u) =
     \<lparr>left = l, right = r, down = d, up = u\<rparr> \<and>
   (spec_periodic_paired l r \<longrightarrow>
     spec_BoundaryCondition1D l r = Inr (BoundaryCondition1D_ctor (Some l) (Some r))) \<and>
   (spec_periodic_paired l r \<and> spec_periodic_paired d u \<longrightarrow>
     spec_BoundaryCondition2D l r d u =
       Inr (BoundaryCondition2D_ctor (Some l) (Some r) (Some d) (Some u)))"
  by (simp add: ctor_defs spec_BoundaryCondition1D_def spec_BoundaryCondition2D_def)

theorem BoundaryCondition_ctor_accepts_every_pairing_witness:
  "spec_periodic_paired \<lparr>type_bc = Periodic, value_bc = 0\<rparr> \<lparr>type_bc = Periodic, value_bc = 0\<rparr> \<and>
   spec_periodic_paired \<lparr>type_bc = Dirichlet, value_bc = 1\<rparr> \<lparr>type_bc = Neumann, value_bc = 0\<rparr> \<and>
   spec_BoundaryCondition1D \<lparr>type_bc = Periodic, value_bc = 0\<rparr> \<lparr>type_bc = Periodic, value_bc = 0\<rparr> =
     Inr (BoundaryCondition1D_ctor (Some \<lparr>type_bc = Periodic, value_bc = 0\<rparr>)
       (Some \<lparr>type_bc = Periodic, value_bc = 0\<rparr>)) \<and>
   spec_BoundaryCondition2D \<lparr>type_bc = Periodic, value_bc = 0\<rparr> \<lparr>type_bc = Periodic, value_bc = 0\<rparr>
       \<lparr>type_bc = Dirichlet, value_bc = 1\<rparr> \<lparr>type_bc = Neumann, value_bc = 0\<rparr> =
     Inr (BoundaryCondition2D_ctor (Some \<lparr>type_bc = Periodic, value_bc = 0\<rparr>)
       (Some \<lparr>type_bc = Periodic, value_bc = 0\<rparr>) (Some \<lparr>type_bc = Dirichlet, value_bc = 1\<rparr>)
       (Some \<lparr>type_bc = Neumann, value_bc = 0\<rparr>))"
proof -
  have p: "spec_periodic_paired \<lparr>type_bc = Periodic, value_bc = 0\<rparr> \<lparr>type_bc = Periodic, value_bc = 0\<rparr>"
    and q: "spec_periodic_paired \<lparr>type_bc = Dirichlet, value_bc = 1\<rparr> \<lparr>type_bc = Neumann, value_bc = 0\<rparr>"
    by (simp_all add: spec_periodic_paired_def)
  from p q
    BoundaryCondition_ctor_accepts_every_pairing
      [of "\<lparr>type_bc = Periodic, value_bc = 0\<rparr>" "\<lparr>type_bc = Periodic, value_bc = 0\<rparr>"
          "\<lparr>type_bc = Dirichlet, value_bc = 1\<rparr>" "\<lparr>type_bc = Neumann, value_bc = 0\<rparr>"]
  show ?thesis by blast
qed

text \<open>
  Claim C6 has BoundaryCondition2D hold a BoundaryCondition1D as a component instead of
  deriving from it. The header derives:
  \<^verbatim>\<open>class BoundaryCondition2D : public BoundaryCondition1D\<close>. An object of
  BoundaryCondition2D has \<^verbatim>\<open>left\<close> and \<^verbatim>\<open>right\<close> as members of its own, read by
  the selectors of BoundaryCondition1D with no component in between, and it is an argument
  of the copy constructor of BoundaryCondition1D, which keeps its base part.
\<close>

theorem BoundaryCondition2D_is_a_BoundaryCondition1D:
  "left (BoundaryCondition2D_ctor (Some (BoundaryCondition_ctor (Some Dirichlet) (Some 1))) None None None) =
     \<lparr>type_bc = Dirichlet, value_bc = 1\<rparr> \<and>
   right (BoundaryCondition2D_ctor (Some (BoundaryCondition_ctor (Some Dirichlet) (Some 1))) None None None) =
     \<lparr>type_bc = Neumann, value_bc = 0\<rparr> \<and>
   BoundaryCondition1D_copy
     (BoundaryCondition2D_ctor (Some (BoundaryCondition_ctor (Some Dirichlet) (Some 1))) None None None) =
     BoundaryCondition1D_ctor (Some (BoundaryCondition_ctor (Some Dirichlet) (Some 1))) None"
  by (simp add: ctor_defs BoundaryCondition1D_copy_def)

text \<open>
  Claim C6, amended. BoundaryCondition2D derives from BoundaryCondition1D: an object built
  by its constructor is the BoundaryCondition1D object built from the same \<^verbatim>\<open>left\<close> and
  \<^verbatim>\<open>right\<close>, extended by the members \<^verbatim>\<open>down\<close> and \<^verbatim>\<open>up\<close>; it inherits
  \<^verbatim>\<open>left\<close> and \<^verbatim>\<open>right\<close>, and copying it as a BoundaryCondition1D yields that base
  object.
\<close>

theorem BoundaryCondition2D_extends_BoundaryCondition1D:
  "BoundaryCondition2D_ctor l r d u =
     BoundaryCondition1D.extend (BoundaryCondition1D_ctor l r)
       \<lparr>down = default_arg (BoundaryCondition_ctor None None) d,
        up = default_arg (BoundaryCondition_ctor None None) u\<rparr> \<and>
   left (BoundaryCondition2D_ctor l r d u) = left (BoundaryCondition1D_ctor l r) \<and>
   right (BoundaryCondition2D_ctor l r d u) = right (BoundaryCondition1D_ctor l r) \<and>
   BoundaryCondition1D_copy (BoundaryCondition2D_ctor l r d u) = BoundaryCondition1D_ctor l r \<and>
   BoundaryCondition1D.more (BoundaryCondition2D_ctor l r d u) =
     \<lparr>down = default_arg (BoundaryCondition_ctor None None) d,
      up = default_arg (BoundaryCondition_ctor None None) u\<rparr>"
  by (cases l; cases r) (simp_all add: ctor_defs BoundaryCondition1D_copy_def)

section \<open>Problem configurations\<close>

text \<open>
  The validated construction of the specification accepts no grid of fewer than three
  points, in one dimension and on either axis in two.
\<close>

lemma spec_valid_grid_lengths:
  "spec_valid1D c1 \<Longrightarrow> 3 \<le> length (grid c1)"
  "spec_valid2D c2 \<Longrightarrow> 3 \<le> length (xGrid c2) \<and> 3 \<le> length (yGrid c2)"
  by (simp_all add: spec_valid1D_def spec_valid2D_def)

lemma spec_FiniteDifferenceInput2D_short_grid:
  "spec_FiniteDifferenceInput2D (1 / 10) [0, 1, 2] [0, 1] [0, 0, 0] [0, 0] [1, 1, 1, 1, 1, 1]
      RungeKutta4 Upwind (BoundaryCondition2D_ctor None None None None) =
     Inl InvalidConfiguration"
  by (simp add: spec_FiniteDifferenceInput2D_def spec_valid2D_def)

text \<open>
  Claim C2 has the construction of a FiniteDifferenceInput1D or FiniteDifferenceInput2D
  fail with InvalidConfiguration on every invalid combination of arguments. The
  constructors of the header check nothing. The one-dimensional arguments below break every
  rule at once (a negative \<^verbatim>\<open>dt\<close>, a decreasing grid of two points, buffers of three
  different lengths, both types \<^verbatim>\<open>Null\<close>, Periodic on the left side only), and so do
  the two-dimensional ones (\<^verbatim>\<open>dt\<close> zero, a decreasing y grid of two points, buffers
  of the wrong lengths, both types \<^verbatim>\<open>Null\<close>, Periodic on the upper side only); each time the validated construction of the specification fails
  and the constructor yields the object holding these very arguments.
\<close>

theorem invalid_configuration_is_constructed:
  "spec_FiniteDifferenceInput1D (- 1) [1, 0] [0] [] SolverType_Null SpaceDiscretizerType_Null
      (BoundaryCondition1D_ctor (Some (BoundaryCondition_ctor (Some Periodic) None)) None) =
     Inl InvalidConfiguration \<and>
   FiniteDifferenceInput1D_ctor (- 1) [1, 0] [0] [] SolverType_Null SpaceDiscretizerType_Null
      (BoundaryCondition1D_ctor (Some (BoundaryCondition_ctor (Some Periodic) None)) None) =
     \<lparr>FiniteDifferenceInput1D.dt = - 1, grid = [1, 0], velocity = [0], diffusion = [],
      solverType = 0, spaceDiscretizerType = SpaceDiscretizerType_Null,
      boundaryConditions =
        \<lparr>left = \<lparr>type_bc = Periodic, value_bc = 0\<rparr>, right = \<lparr>type_bc = Neumann, value_bc = 0\<rparr>\<rparr>\<rparr> \<and>
   spec_FiniteDifferenceInput2D 0 [0, 1, 2] [1, 0] [0, 0] [] [1] SolverType_Null
      SpaceDiscretizerType_Null
      (BoundaryCondition2D_ctor None None None (Some (BoundaryCondition_ctor (Some Periodic) None))) =
     Inl InvalidConfiguration \<and>
   FiniteDifferenceInput2D_ctor 0 [0, 1, 2] [1, 0] [0, 0] [] [1] SolverType_Null
      SpaceDiscretizerType_Null
      (BoundaryCondition2D_ctor None None None (Some (BoundaryCondition_ctor (Some Periodic) None))) =
     \<lparr>dt = 0, xGrid = [0, 1, 2], yGrid = [1, 0], xVelocity = [0, 0], yVelocity = [],
      diffusion = [1], solverType = 0, spaceDiscretizerType = SpaceDiscretizerType_Null,
      boundaryConditions =
        \<lparr>left = \<lparr>type_bc = Neumann, value_bc = 0\<rparr>, right = \<lparr>type_bc = Neumann, value_bc = 0\<rparr>,
         down = \<lparr>type_bc = Neumann, value_bc = 0\<rparr>, up = \<lparr>type_bc = Periodic, value_bc = 0\<rparr>\<rparr>\<rparr>"
  by (simp add: ctor_defs spec_FiniteDifferenceInput1D_def spec_FiniteDifferenceInput2D_def
      spec_valid1D_def spec_valid2D_def FiniteDifferenceInput1D_ctor_def
      FiniteDifferenceInput2D_ctor_def SolverType_Null_def)

text \<open>
  Claim C2, amended. The constructors of FiniteDifferenceInput1D and
  FiniteDifferenceInput2D validate nothing and never fail: for every combination of
  arguments they yield the object whose members are the arguments, unchanged. Where the
  validated construction of the specification succeeds, it yields this same object.
\<close>

theorem FiniteDifferenceInput_ctor_stores_arguments:
  "FiniteDifferenceInput1D_ctor t g v d s z b =
     \<lparr>FiniteDifferenceInput1D.dt = t, grid = g, velocity = v, diffusion = d, solverType = s,
      spaceDiscretizerType = z, boundaryConditions = b\<rparr> \<and>
   (spec_FiniteDifferenceInput1D t g v d s z b = Inr c \<longrightarrow>
     FiniteDifferenceInput1D_ctor t g v d s z b = c) \<and>
   FiniteDifferenceInput2D_ctor t2 gx gy vx vy d2 s2 z2 b2 =
     \<lparr>dt = t2, xGrid = gx, yGrid = gy, xVelocity = vx, yVelocity = vy, diffusion = d2,
      solverType = s2, spaceDiscretizerType = z2, boundaryConditions = b2\<rparr> \<and>
   (spec_FiniteDifferenceInput2D t2 gx gy vx vy d2 s2 z2 b2 = Inr c2 \<longrightarrow>
     FiniteDifferenceInput2D_ctor t2 gx gy vx vy d2 s2 z2 b2 = c2)"
  by (auto simp add: FiniteDifferenceInput1D_ctor_def FiniteDifferenceInput2D_ctor_def
      spec_FiniteDifferenceInput1D_def spec_FiniteDifferenceInput2D_def Let_def
      split: if_splits)

theorem FiniteDifferenceInput_ctor_stores_arguments_witness:
  "spec_FiniteDifferenceInput1D (1 / 10) [0, 1, 2, 3, 4] [0, 0, 0, 0, 0] [1, 1, 1, 1, 1]
      ExplicitEuler Centered
      (BoundaryCondition1D_ctor (Some (BoundaryCondition_ctor (Some Dirichlet) (Some 0)))
        (Some (BoundaryCondition_ctor (Some Dirichlet) (Some 0)))) =
     Inr \<lparr>FiniteDifferenceInput1D.dt = 1 / 10, grid = [0, 1, 2, 3, 4],
          velocity = [0, 0, 0, 0, 0], diffusion = [1, 1, 1, 1, 1], solverType = ExplicitEuler,
          spaceDiscretizerType = Centered,
          boundaryConditions =
            \<lparr>left = \<lparr>type_bc = Dirichlet, value_bc = 0\<rparr>,
             right = \<lparr>type_bc = Dirichlet, value_bc = 0\<rparr>\<rparr>\<rparr> \<and>
   FiniteDifferenceInput1D_ctor (1 / 10) [0, 1, 2, 3, 4] [0, 0, 0, 0, 0] [1, 1, 1, 1, 1]
      ExplicitEuler Centered
      (BoundaryCondition1D_ctor (Some (BoundaryCondition_ctor (Some Dirichlet) (Some 0)))
        (Some (BoundaryCondition_ctor (Some Dirichlet) (Some 0)))) =
     \<lparr>FiniteDifferenceInput1D.dt = 1 / 10, grid = [0, 1, 2, 3, 4],
      velocity = [0, 0, 0, 0, 0], diffusion = [1, 1, 1, 1, 1], solverType = ExplicitEuler,
      spaceDiscretizerType = Centered,
      boundaryConditions =
        \<lparr>left = \<lparr>type_bc = Dirichlet, value_bc = 0\<rparr>,
         right = \<lparr>type_bc = Dirichlet, value_bc = 0\<rparr>\<rparr>\<rparr> \<and>
   spec_FiniteDifferenceInput2D (1 / 10) [0, 1, 2] [0, 1, 2] [0, 0, 0] [0, 0, 0] [1, 1, 1, 1, 1, 1, 1, 1, 1]
      RungeKutta4 Upwind (BoundaryCondition2D_ctor None None None None) =
     Inr \<lparr>dt = 1 / 10, xGrid = [0, 1, 2], yGrid = [0, 1, 2], xVelocity = [0, 0, 0],
          yVelocity = [0, 0, 0], diffusion = [1, 1, 1, 1, 1, 1, 1, 1, 1],
          solverType = RungeKutta4,
          spaceDiscretizerType = Upwind,
          boundaryConditions =
            \<lparr>left = \<lparr>type_bc = Neumann, value_bc = 0\<rparr>, right = \<lparr>type_bc = Neumann, value_bc = 0\<rparr>,
             down = \<lparr>type_bc = Neumann, value_bc = 0\<rparr>, up = \<lparr>type_bc = Neumann, value_bc = 0\<rparr>\<rparr>\<rparr> \<and>
   FiniteDifferenceInput2D_ctor (1 / 10) [0, 1, 2] [0, 1, 2] [0, 0, 0] [0, 0, 0] [1, 1, 1, 1, 1, 1, 1, 1, 1]
      RungeKutta4 Upwind (BoundaryCondition2D_ctor None None None None) =
     \<lparr>dt = 1 / 10, xGrid = [0, 1, 2], yGrid = [0, 1, 2], xVelocity = [0, 0, 0],
      yVelocity = [0, 0, 0], diffusion = [1, 1, 1, 1, 1, 1, 1, 1, 1],
      solverType = RungeKutta4,
      spaceDiscretizerType = Upwind,
      boundaryConditions =
        \<lparr>left = \<lparr>type_bc = Neumann, value_bc = 0\<rparr>, right = \<lparr>type_bc = Neumann, value_bc = 0\<rparr>,
         down = \<lparr>type_bc = Neumann, value_bc = 0\<rparr>, up = \<lparr>type_bc = Neumann, value_bc = 0\<rparr>\<rparr>\<rparr>"
  (is "?s1 = Inr ?c1 \<and> ?k1 = ?c1 \<and> ?s2 = Inr ?c2 \<and> ?k2 = ?c2")
proof -
  have a: "?s1 = Inr ?c1"
    by (simp add: ctor_defs spec_FiniteDifferenceInput1D_def spec_valid1D_def
        spec_periodic_paired_def SolverType_defs)
  have b: "?s2 = Inr ?c2"
    by (simp add: ctor_defs spec_FiniteDifferenceInput2D_def spec_valid2D_def
        spec_periodic_paired_def SolverType_defs)
  note t = FiniteDifferenceInput_ctor_stores_arguments
    [of "1 / 10" "[0, 1, 2, 3, 4]" "[0, 0, 0, 0, 0]" "[1, 1, 1, 1, 1]" ExplicitEuler Centered
      "BoundaryCondition1D_ctor (Some (BoundaryCondition_ctor (Some Dirichlet) (Some 0)))
        (Some (BoundaryCondition_ctor (Some Dirichlet) (Some 0)))" ?c1
      "1 / 10" "[0, 1, 2]" "[0, 1, 2]" "[0, 0, 0]" "[0, 0, 0]"
      "[1, 1, 1, 1, 1, 1, 1, 1, 1]" RungeKutta4 Upwind
      "BoundaryCondition2D_ctor None None None None" ?c2]
  from a b t show ?thesis by blast
qed

text \<open>
  Claim C7 has a problem configuration immutable once constructed. The members of both
  structs are public and not \<^verbatim>\<open>const\<close>, and both structs declare their copy and move
  assignment operators as defaulted: after \<^verbatim>\<open>a = b\<close> the object \<^verbatim>\<open>a\<close>, constructed
  before, holds other members than it was constructed with.
\<close>

theorem assignment_changes_every_field:
  "FiniteDifferenceInput1D_assign
     (FiniteDifferenceInput1D_ctor 1 [0, 1, 2] [0, 0, 0] [1, 1, 1] ExplicitEuler Centered
       (BoundaryCondition1D_ctor None None))
     (FiniteDifferenceInput1D_ctor 2 [0, 2, 4] [1, 1, 1] [3, 3, 3] RungeKutta4 Upwind
       (BoundaryCondition1D_ctor (Some (BoundaryCondition_ctor (Some Dirichlet) None)) None)) =
   \<lparr>FiniteDifferenceInput1D.dt = 2, grid = [0, 2, 4], velocity = [1, 1, 1], diffusion = [3, 3, 3],
    solverType = 6, spaceDiscretizerType = Upwind,
    boundaryConditions =
      \<lparr>left = \<lparr>type_bc = Dirichlet, value_bc = 0\<rparr>, right = \<lparr>type_bc = Neumann, value_bc = 0\<rparr>\<rparr>\<rparr> \<and>
   FiniteDifferenceInput1D.dt
     (FiniteDifferenceInput1D_assign
       (FiniteDifferenceInput1D_ctor 1 [0, 1, 2] [0, 0, 0] [1, 1, 1] ExplicitEuler Centered
         (BoundaryCondition1D_ctor None None))
       (FiniteDifferenceInput1D_ctor 2 [0, 2, 4] [1, 1, 1] [3, 3, 3] RungeKutta4 Upwind
         (BoundaryCondition1D_ctor (Some (BoundaryCondition_ctor (Some Dirichlet) None)) None))) \<noteq>
   FiniteDifferenceInput1D.dt
     (FiniteDifferenceInput1D_ctor 1 [0, 1, 2] [0, 0, 0] [1, 1, 1] ExplicitEuler Centered
       (BoundaryCondition1D_ctor None None)) \<and>
   dt (FiniteDifferenceInput2D_assign
        (FiniteDifferenceInput2D_ctor 1 [0, 1, 2] [0, 1, 2] [] [] [] ExplicitEuler Centered
          (BoundaryCondition2D_ctor None None None None))
        (FiniteDifferenceInput2D_ctor 2 [0, 1, 2] [0, 1, 2] [] [] [] ExplicitEuler Centered
          (BoundaryCondition2D_ctor None None None None))) \<noteq>
   dt (FiniteDifferenceInput2D_ctor 1 [0, 1, 2] [0, 1, 2] [] [] [] ExplicitEuler Centered
        (BoundaryCondition2D_ctor None None None None))"
  by (simp add: ctor_defs FiniteDifferenceInput1D_assign_def FiniteDifferenceInput2D_assign_def
      FiniteDifferenceInput1D_ctor_def FiniteDifferenceInput2D_ctor_def SolverType_defs)

text \<open>
  Claim C7, amended. A FiniteDifferenceInput1D or FiniteDifferenceInput2D is not immutable:
  the assignment operators the structs declare overwrite every member of a constructed
  object (\<^verbatim>\<open>dt\<close>, the grids, the velocities, \<^verbatim>\<open>diffusion\<close>, \<^verbatim>\<open>solverType\<close>,
  \<^verbatim>\<open>spaceDiscretizerType\<close>, \<^verbatim>\<open>boundaryConditions\<close>) with the member of the right-hand
  side, so that the target equals the right-hand side afterwards.
\<close>

theorem assignment_overwrites_all_fields:
  "FiniteDifferenceInput1D_assign lhs rhs = rhs \<and> FiniteDifferenceInput2D_assign lhs2 rhs2 = rhs2"
  by (simp add: FiniteDifferenceInput1D_assign_def FiniteDifferenceInput2D_assign_def)

section \<open>Dispatch\<close>

text \<open>
  The range mark \<^verbatim>\<open>__BEGIN__\<close> is the number of ExplicitEuler. So no dispatcher at all,
  however it is written, fails at \<^verbatim>\<open>Null\<close>, \<^verbatim>\<open>__BEGIN__\<close> and \<^verbatim>\<open>__END__\<close> and at
  nothing else, and yet dispatches each of the twelve solvers.
\<close>

lemma sentinel_claim_unsatisfiable:
  fixes adv :: "SolverType \<Rightarrow> error + 'a"
  shows "\<not> ((\<forall>s. adv s = Inl UnsupportedSolver \<longleftrightarrow>
                s = SolverType_Null \<or> s = SolverType_BEGIN \<or> s = SolverType_END) \<and>
            (\<forall>s \<in> set solvers. adv s \<noteq> Inl UnsupportedSolver))"
proof
  assume h: "(\<forall>s. adv s = Inl UnsupportedSolver \<longleftrightarrow>
                s = SolverType_Null \<or> s = SolverType_BEGIN \<or> s = SolverType_END) \<and>
            (\<forall>s \<in> set solvers. adv s \<noteq> Inl UnsupportedSolver)"
  have "SolverType_BEGIN \<in> set solvers"
    by (simp add: solvers_eq SolverType_BEGIN_def ExplicitEuler_def)
  with h have "adv SolverType_BEGIN \<noteq> Inl UnsupportedSolver" by blast
  moreover from h have "adv SolverType_BEGIN = Inl UnsupportedSolver" by blast
  ultimately show False by contradiction
qed

text \<open>
  Claim C4 has dispatch fail at \<^verbatim>\<open>__BEGIN__\<close> and has \<^verbatim>\<open>__BEGIN__\<close> differ from the
  twelve solvers. In the header \<^verbatim>\<open>__BEGIN__\<close> is ExplicitEuler, one of the twelve, and
  passing it selects the rule of ExplicitEuler.
\<close>

theorem SolverType_BEGIN_is_dispatched:
  "SolverType_BEGIN = ExplicitEuler \<and> SolverType_BEGIN \<in> set solvers \<and>
   Advance_dispatch SolverType_BEGIN = Inr Rule_ExplicitEuler"
  by (simp add: solvers_eq Advance_dispatch_def SolverType_BEGIN_def ExplicitEuler_def)

text \<open>
  Claim C4, amended. Dispatch fails with UnsupportedSolver exactly when the SolverType lies
  outside the half-open range from \<^verbatim>\<open>__BEGIN__\<close> to \<^verbatim>\<open>__END__\<close>, as \<^verbatim>\<open>Null\<close> and
  \<^verbatim>\<open>__END__\<close> do; each of the twelve solvers is dispatched to its own rule; \<^verbatim>\<open>Null\<close>
  and \<^verbatim>\<open>__END__\<close> are none of the twelve solvers, while \<^verbatim>\<open>__BEGIN__\<close> is
  ExplicitEuler.
\<close>

theorem Advance_dispatch_fails_outside_range:
  "in_solver_range s = (Advance_dispatch s \<noteq> Inl UnsupportedSolver) \<and>
   map Advance_dispatch solvers =
     map Inr [Rule_ExplicitEuler, Rule_ImplicitEuler, Rule_CrankNicolson, Rule_RungeKuttaRalston,
       Rule_RungeKutta3, Rule_RungeKutta4, Rule_RungeKuttaThreeEight,
       Rule_RungeKuttaGaussLegendre4, Rule_RichardsonExtrapolation2,
       Rule_RichardsonExtrapolation3, Rule_AdamsBashforth2, Rule_AdamsMoulton2] \<and>
   Advance_dispatch SolverType_Null = Inl UnsupportedSolver \<and>
   Advance_dispatch SolverType_END = Inl UnsupportedSolver \<and>
   SolverType_Null \<notin> set solvers \<and> SolverType_END \<notin> set solvers \<and>
   SolverType_BEGIN = ExplicitEuler"
proof -
  have "in_solver_range s = (Advance_dispatch s \<noteq> Inl UnsupportedSolver)"
    by (simp add: in_solver_range_iff solvers_eq Advance_dispatch_def)
  moreover have "map Advance_dispatch solvers =
     map Inr [Rule_ExplicitEuler, Rule_ImplicitEuler, Rule_CrankNicolson, Rule_RungeKuttaRalston,
       Rule_RungeKutta3, Rule_RungeKutta4, Rule_RungeKuttaThreeEight,
       Rule_RungeKuttaGaussLegendre4, Rule_RichardsonExtrapolation2,
       Rule_RichardsonExtrapolation3, Rule_AdamsBashforth2, Rule_AdamsMoulton2]"
    by (simp add: solvers_eq Advance_dispatch_def SolverType_defs)
  moreover have "Advance_dispatch SolverType_Null = Inl UnsupportedSolver"
    and "Advance_dispatch SolverType_END = Inl UnsupportedSolver"
    by (simp_all add: Advance_dispatch_def SolverType_defs)
  moreover have "SolverType_Null \<notin> set solvers" and "SolverType_END \<notin> set solvers"
    and "SolverType_BEGIN = ExplicitEuler"
    by (simp_all add: solvers_eq SolverType_defs)
  ultimately show ?thesis by blast
qed

end
